theory Spec2Isabelle
  imports Main "HOL-Library.Word" "HOL-Library.Sublist"
begin

section \<open>The serial/TCP transport of the LDLiDAR driver\<close>

text \<open>
  A shallow embedding of \<^verbatim>\<open>ldlidar_driver/src/serial_interface_linux.cpp\<close>.
  The object's members are a record; every call into the operating system, the C library,
  the logger, the worker thread and the registered callback is appended to a trace that
  the record carries, together with the value the call returned. What the operating system
  answers is not decided by the program, so every operation takes these answers as an
  argument (an environment record).
\<close>

subsection \<open>Data\<close>

type_synonym byte = "8 word"

text \<open>The registered \<^verbatim>\<open>std::function\<close>, known by a tag; \<^verbatim>\<open>nullptr\<close> is \<open>None\<close>.\<close>

datatype callback = Callback nat

text \<open>The worker object behind \<^verbatim>\<open>rx_thread_\<close>; \<^verbatim>\<open>nullptr\<close> is \<open>None\<close>.\<close>

datatype thread = Thread (joinable: bool)

text \<open>What \<^verbatim>\<open>std::stoi\<close> throws.\<close>

datatype exn = Invalid_argument | Out_of_range

datatype 'a outcome = Returned 'a | Threw exn

datatype event =
    Ev_socket int                         \<comment> \<open>\<^verbatim>\<open>socket(AF_INET, SOCK_STREAM, 0)\<close>, its result\<close>
  | Ev_connect int "32 word" "16 word" int  \<comment> \<open>handle, \<^verbatim>\<open>sin_addr\<close>, port, result\<close>
  | Ev_fcntl_nonblock int                 \<comment> \<open>\<^verbatim>\<open>F_GETFL\<close>, then \<^verbatim>\<open>F_SETFL\<close> with \<^verbatim>\<open>O_NONBLOCK\<close>\<close>
  | Ev_open string int                    \<comment> \<open>\<^verbatim>\<open>open(path, O_RDWR | O_NOCTTY | O_NONBLOCK)\<close>, its result\<close>
  | Ev_tcgetattr int int                  \<comment> \<open>handle, result\<close>
  | Ev_tcsetattr int int                  \<comment> \<open>handle, result (raw 8N1 line settings)\<close>
  | Ev_tcflush int
  | Ev_close int
  | Ev_thread_start
  | Ev_thread_join
  | Ev_pselect int int "nat \<times> nat" int    \<comment> \<open>handle, \<^verbatim>\<open>nfds\<close>, timeout (s, ns), result\<close>
  | Ev_read int "32 word" int             \<comment> \<open>handle, buffer length, result\<close>
  | Ev_write int "32 word" int            \<comment> \<open>handle, buffer length, result\<close>
  | Ev_callback callback "byte list" nat  \<comment> \<open>the callback, the buffer it is handed, the count\<close>
  | Ev_log_error string
  | Ev_log_info string

text \<open>
  The members of \<^verbatim>\<open>SerialInterfaceLinux\<close>, and the trace.

  Modelled from the spec: the member declarations are in \<^verbatim>\<open>serial_interface_linux.h\<close>,
  which is not among the sources. The handle is a signed integer with the sentinel \<open>-1\<close>
  (the constructor stores it), the baud rate is the \<^verbatim>\<open>uint32_t\<close> that \<^verbatim>\<open>Open\<close> receives,
  and the byte counter is the spec's monotonic counter of bytes delivered, taken unbounded.
\<close>

record iface =
  rx_thread :: "thread option"
  rx_count :: int
  com_handle :: int
  com_baudrate :: "32 word"
  is_cmd_opened :: bool
  rx_thread_exit_flag :: bool
  read_callback :: "callback option"
  trace :: "event list"

definition emit :: "event \<Rightarrow> iface \<Rightarrow> iface" where
  "emit e s = s\<lparr>trace := trace s @ [e]\<rparr>"

text \<open>
  The constructor sets five members. The two atomic flags are not written by it: their
  first values come from the declaration, and are arguments here.
\<close>

definition SerialInterfaceLinux :: "bool \<Rightarrow> bool \<Rightarrow> iface" where
  "SerialInterfaceLinux opened0 exit0 =
     \<lparr>rx_thread = None, rx_count = 0, com_handle = - 1, com_baudrate = 0,
      is_cmd_opened = opened0, rx_thread_exit_flag = exit0, read_callback = None,
      trace = []\<rparr>"

text \<open>
  Modelled from the spec: \<^verbatim>\<open>IsOpened\<close> is defined in the header, which is not among the
  sources. The spec's \<open>isOpen\<close> is the flag that \<^verbatim>\<open>Open\<close> sets last and \<^verbatim>\<open>Close\<close> clears last.
\<close>

definition IsOpened :: "iface \<Rightarrow> bool" where
  "IsOpened s = is_cmd_opened s"

subsection \<open>Handles that are allocated, read off the trace\<close>

fun handle_step :: "int set \<Rightarrow> event \<Rightarrow> int set" where
  "handle_step H (Ev_socket r) = (if 0 \<le> r then insert r H else H)"
| "handle_step H (Ev_open p r) = (if 0 \<le> r then insert r H else H)"
| "handle_step H (Ev_close h) = H - {h}"
| "handle_step H e = H"

definition live_handles :: "event list \<Rightarrow> int set" where
  "live_handles tr = foldl handle_step {} tr"

subsection \<open>Library functions that Open uses\<close>

text \<open>\<^verbatim>\<open>s.find(p) == 0\<close>: the string starts with \<open>p\<close>.\<close>

definition find_at_0 :: "string \<Rightarrow> string \<Rightarrow> bool" where
  "find_at_0 p s = (take (length p) s = p)"

text \<open>\<^verbatim>\<open>s.find(c)\<close>: the first position of \<open>c\<close>; \<^verbatim>\<open>npos\<close> is \<open>None\<close>.\<close>

fun find_char :: "char \<Rightarrow> string \<Rightarrow> nat option" where
  "find_char c [] = None"
| "find_char c (x # xs) = (if x = c then Some 0 else map_option Suc (find_char c xs))"

text \<open>
  \<^verbatim>\<open>std::stoi(str)\<close> in base 10: white space is skipped, one sign is read, then the
  longest run of digits; what follows is ignored. No digit: \<^verbatim>\<open>std::invalid_argument\<close>.
  A value outside \<^verbatim>\<open>int\<close>: \<^verbatim>\<open>std::out_of_range\<close>.
\<close>

definition isspace :: "char \<Rightarrow> bool" where
  "isspace c = (c \<in> set [CHR 0x20, CHR 0x09, CHR 0x0A, CHR 0x0B, CHR 0x0C, CHR 0x0D])"

definition isdigit :: "char \<Rightarrow> bool" where
  "isdigit c = (c \<in> set ''0123456789'')"

fun digits_value :: "int \<Rightarrow> string \<Rightarrow> int" where
  "digits_value acc [] = acc"
| "digits_value acc (c # cs) = digits_value (acc * 10 + (int (of_char c) - 48)) cs"

definition stoi :: "string \<Rightarrow> exn + int" where
  "stoi str =
     (let s1 = dropWhile isspace str;
          neg = (case s1 of c # r \<Rightarrow> c = CHR ''-'' | [] \<Rightarrow> False);
          s2 = (case s1 of c # r \<Rightarrow> if c = CHR ''-'' \<or> c = CHR ''+'' then r else s1 | [] \<Rightarrow> []);
          ds = takeWhile isdigit s2
      in if ds = [] then Inl Invalid_argument
         else let v = (if neg then - digits_value 0 ds else digits_value 0 ds)
              in if v < - (2 ^ 31) \<or> 2 ^ 31 - 1 < v then Inl Out_of_range else Inr v)"

subsection \<open>Open\<close>

text \<open>
  The answers of the system to one \<^verbatim>\<open>Open\<close>. \<open>inet_pton\<close> gives the address when the text
  is a dotted quad and \<open>None\<close> when it is not (the call then leaves \<^verbatim>\<open>sin_addr\<close> as
  \<^verbatim>\<open>memset\<close> made it, zero; its result is not looked at).
\<close>

record open_env =
  socket_ret :: int
  inet_pton :: "string \<Rightarrow> 32 word option"
  connect_ret :: int
  open_ret :: int
  tcgetattr_ret :: int
  tcsetattr_ret :: int

text \<open>The idiom \<^verbatim>\<open>if (com_handle_ != -1) { close(com_handle_); com_handle_ = -1; }\<close>.\<close>

definition close_handle :: "iface \<Rightarrow> iface" where
  "close_handle s =
     (if com_handle s \<noteq> - 1 then (emit (Ev_close (com_handle s)) s)\<lparr>com_handle := - 1\<rparr> else s)"

text \<open>The three lines that end both successful paths.\<close>

definition start_worker :: "iface \<Rightarrow> iface" where
  "start_worker s =
     (emit Ev_thread_start (s\<lparr>rx_thread_exit_flag := False\<rparr>))
       \<lparr>rx_thread := Some (Thread True), is_cmd_opened := True\<rparr>"

definition Open_network :: "open_env \<Rightarrow> string \<Rightarrow> iface \<Rightarrow> bool outcome \<times> iface" where
  "Open_network env port_name s =
     (let ip_port = drop 6 port_name in
      case find_char CHR '':'' ip_port of
        None \<Rightarrow> (Returned False, emit (Ev_log_error ''Open bad port_name'') s)
      | Some pos \<Rightarrow>
          if pos = length ip_port
          then (Returned False, emit (Ev_log_error ''Open bad port_name'') s)
          else
            let ip = take pos ip_port;
                port = drop (pos + 1) ip_port;
                s1 = emit (Ev_socket (socket_ret env)) (s\<lparr>com_handle := socket_ret env\<rparr>);
                s2 = emit (Ev_log_info ''Open %s:%s'') s1;
                addr = (case inet_pton env ip of Some a \<Rightarrow> a | None \<Rightarrow> 0)
            in (case stoi port of
                  Inl x \<Rightarrow> (Threw x, s2)
                | Inr v \<Rightarrow>
                    let s3 = emit (Ev_connect (com_handle s2) addr (word_of_int v)
                                     (connect_ret env)) s2
                    in if connect_ret env < 0
                       then (Returned False, emit (Ev_log_error ''Open connect error,%s'') s3)
                       else (Returned True,
                             start_worker (emit (Ev_fcntl_nonblock (com_handle s3)) s3))))"

definition Open_serial :: "open_env \<Rightarrow> string \<Rightarrow> 32 word \<Rightarrow> iface \<Rightarrow> bool outcome \<times> iface" where
  "Open_serial env port_name baud s =
     (let s1 = emit (Ev_open port_name (open_ret env)) (s\<lparr>com_handle := open_ret env\<rparr>)
      in if - 1 = com_handle s1
         then (Returned False, emit (Ev_log_error ''Open open error,%s'') s1)
         else
           let s2 = s1\<lparr>com_baudrate := baud\<rparr>;
               s3 = emit (Ev_tcgetattr (com_handle s2) (tcgetattr_ret env)) s2
           in if - 1 = tcgetattr_ret env
              then (Returned False, close_handle (emit (Ev_log_error ''tcgetattr error,%s'') s3))
              else
                let s4 = emit (Ev_tcsetattr (com_handle s3) (tcsetattr_ret env)) s3
                in if tcsetattr_ret env < 0
                   then (Returned False,
                         close_handle (emit (Ev_log_error ''tcsetattr error,%s'') s4))
                   else (Returned True,
                         start_worker
                           (emit (Ev_tcflush (com_handle s4))
                              (emit (Ev_log_info ''Actual BaudRate reported:%d'') s4))))"

definition Open :: "open_env \<Rightarrow> string \<Rightarrow> 32 word \<Rightarrow> iface \<Rightarrow> bool outcome \<times> iface" where
  "Open env port_name com_baudrate' s =
     (if find_at_0 ''tcp://'' port_name then Open_network env port_name s
      else Open_serial env port_name com_baudrate' s)"

subsection \<open>Close\<close>

definition Close :: "iface \<Rightarrow> bool \<times> iface" where
  "Close s =
     (if is_cmd_opened s = False then (True, s)
      else
        let s1 = s\<lparr>rx_thread_exit_flag := True\<rparr>;
            s2 = close_handle s1;
            s3 = (case rx_thread s2 of
                    None \<Rightarrow> s2
                  | Some t \<Rightarrow>
                      if joinable t then (emit Ev_thread_join s2)\<lparr>rx_thread := None\<rparr> else s2)
        in (True, s3\<lparr>is_cmd_opened := False\<rparr>))"

subsection \<open>ReadFromIO and WriteToIo\<close>

text \<open>
  What \<^verbatim>\<open>read\<close> answers: an error (the result \<open>-1\<close>), or the bytes it delivered (the
  result is their number).
\<close>

datatype read_result = Read_error | Read_bytes "byte list"

fun read_ret :: "read_result \<Rightarrow> int" where
  "read_ret Read_error = - 1"
| "read_ret (Read_bytes d) = int (length d)"

text \<open>The buffer after the read: the bytes delivered, then what the buffer held before.\<close>

fun read_into :: "read_result \<Rightarrow> byte list \<Rightarrow> byte list" where
  "read_into Read_error buf = buf"
| "read_into (Read_bytes d) buf = d @ drop (length d) buf"

text \<open>
  The answers of the system to one \<^verbatim>\<open>ReadFromIO\<close>: the result of \<^verbatim>\<open>pselect\<close>, \<^verbatim>\<open>errno\<close>
  after it, what \<^verbatim>\<open>FD_ISSET\<close> says of the handle after it, and the answer of \<^verbatim>\<open>read\<close>.
\<close>

record read_env =
  pselect_ret :: int
  pselect_errno :: int
  fd_isset :: bool
  read_res :: read_result

definition EINTR :: int where
  "EINTR = 4"

text \<open>\<^verbatim>\<open>static timespec timeout = {0, (long)(100 * 1e6)}\<close>: seconds and nanoseconds.\<close>

definition timeout :: "nat \<times> nat" where
  "timeout = (0, 100 * 1000000)"

text \<open>
  The caller's buffer and the out-parameter are arguments and results: \<open>rx_len\<close> is \<open>None\<close>
  for a null pointer, and holds the pointee otherwise. \<open>len\<close> is the \<^verbatim>\<open>int32_t\<close> that the
  result of \<^verbatim>\<open>read\<close> is cast to, kept as its 32 bits (\<open>-1\<close> is all ones).
\<close>

definition ReadFromIO ::
  "read_env \<Rightarrow> byte list \<Rightarrow> 32 word \<Rightarrow> 32 word option \<Rightarrow> iface
     \<Rightarrow> (bool \<times> byte list \<times> 32 word option) \<times> iface" where
  "ReadFromIO env rx_buf rx_buf_len rx_len s =
     (let len0 = (- 1 :: 32 word) in
      if IsOpened s then
        let r = pselect_ret env;
            s1 = emit (Ev_pselect (com_handle s) (com_handle s + 1) timeout r) s
        in if r < 0 \<and> pselect_errno env = EINTR then ((False, rx_buf, rx_len), s1)
           else if \<not> r < 0 \<and> r = 0 then ((False, rx_buf, rx_len), s1)
           else if fd_isset env then
             let len = (word_of_int (read_ret (read_res env)) :: 32 word);
                 s2 = emit (Ev_read (com_handle s1) rx_buf_len (read_ret (read_res env))) s1;
                 rx_len' = (if len \<noteq> - 1 \<and> rx_len \<noteq> None then Some len else rx_len)
             in ((len \<noteq> - 1, read_into (read_res env) rx_buf, rx_len'), s2)
           else ((len0 \<noteq> - 1, rx_buf, rx_len), s1)
      else ((len0 \<noteq> - 1, rx_buf, rx_len), s))"

text \<open>\<open>write_ret\<close> is what \<^verbatim>\<open>write\<close> answers; \<open>tx_len\<close> is as \<open>rx_len\<close> above.\<close>

definition WriteToIo ::
  "int \<Rightarrow> byte list \<Rightarrow> 32 word \<Rightarrow> 32 word option \<Rightarrow> iface
     \<Rightarrow> (bool \<times> 32 word option) \<times> iface" where
  "WriteToIo write_ret tx_buf tx_buf_len tx_len s =
     (let len0 = (- 1 :: 32 word) in
      if IsOpened s then
        let len = (word_of_int write_ret :: 32 word);
            s1 = emit (Ev_write (com_handle s) tx_buf_len write_ret) s;
            tx_len' = (if len \<noteq> - 1 \<and> tx_len \<noteq> None then Some len else tx_len)
        in ((len \<noteq> - 1, tx_len'), s1)
      else ((len0 \<noteq> - 1, tx_len), s))"

text \<open>
  What the system promises of \<^verbatim>\<open>read\<close> and \<^verbatim>\<open>write\<close>: no more bytes than asked for, and
  (Linux) no more than \<^verbatim>\<open>0x7ffff000\<close> in one call.
\<close>

definition read_answer_ok :: "32 word \<Rightarrow> read_result \<Rightarrow> bool" where
  "read_answer_ok rx_buf_len r =
     (case r of Read_error \<Rightarrow> True
      | Read_bytes d \<Rightarrow> length d \<le> unat rx_buf_len \<and> length d \<le> 0x7ffff000)"

definition write_answer_ok :: "32 word \<Rightarrow> int \<Rightarrow> bool" where
  "write_answer_ok tx_buf_len r =
     (r = - 1 \<or> (0 \<le> r \<and> r \<le> uint tx_buf_len \<and> r \<le> 0x7ffff000))"

subsection \<open>The receiver loop\<close>

definition MAX_ACK_BUF_LEN :: "32 word" where
  "MAX_ACK_BUF_LEN = 4096"

text \<open>One turn of the \<^verbatim>\<open>while\<close> loop of \<^verbatim>\<open>RxThreadProc\<close>: the buffer and the object after it.\<close>

definition RxThreadProc_body :: "read_env \<Rightarrow> byte list \<Rightarrow> iface \<Rightarrow> byte list \<times> iface" where
  "RxThreadProc_body env rx_buf s =
     (case ReadFromIO env rx_buf MAX_ACK_BUF_LEN (Some 0) s of
        ((res, rx_buf', rx_len), s1) \<Rightarrow>
          let readed = (case rx_len of Some n \<Rightarrow> n | None \<Rightarrow> 0)
          in if res \<and> readed \<noteq> 0
             then
               let s2 = s1\<lparr>rx_count := rx_count s1 + uint readed\<rparr>
               in (rx_buf',
                   case read_callback s2 of
                     None \<Rightarrow> s2
                   | Some cb \<Rightarrow> emit (Ev_callback cb rx_buf' (unat readed)) s2)
             else (rx_buf', s1))"

text \<open>
  The loop runs on the worker while \<^verbatim>\<open>Close\<close> runs on the owner, which is the only writer of
  the exit flag. One entry of the schedule is one turn: the answers of the system in it, and
  whether the owner has stored the flag by the end of it. The loop may never end; the
  schedule is its fuel, and \<open>None\<close> says that it is still running when the schedule ends.
\<close>

record rx_env =
  io :: read_env
  exit_requested :: bool

fun RxThreadProc :: "rx_env list \<Rightarrow> byte list \<Rightarrow> iface \<Rightarrow> iface option" where
  "RxThreadProc [] rx_buf s = (if rx_thread_exit_flag s then Some s else None)"
| "RxThreadProc (e # es) rx_buf s =
     (if rx_thread_exit_flag s then Some s
      else
        case RxThreadProc_body (io e) rx_buf s of
          (rx_buf', s1) \<Rightarrow>
            RxThreadProc es rx_buf'
              (if exit_requested e then s1\<lparr>rx_thread_exit_flag := True\<rparr> else s1))"

text \<open>The callback invocations of a trace, in order.\<close>

fun is_callback :: "event \<Rightarrow> bool" where
  "is_callback (Ev_callback cb buf n) = True"
| "is_callback e = False"

definition callbacks :: "event list \<Rightarrow> event list" where
  "callbacks tr = filter is_callback tr"

fun is_pselect :: "event \<Rightarrow> bool" where
  "is_pselect (Ev_pselect h n t r) = True"
| "is_pselect e = False"

section \<open>Properties\<close>

subsection \<open>Helper lemmas\<close>




text \<open>
  A byte count that the system can answer fits the 32 bits it is cast to, and is not
  mistaken for the error value.
\<close>

lemma count_word_32:
  fixes k :: int
  assumes "0 \<le> k" "k \<le> 0x7ffff000"
  shows "(word_of_int k :: 32 word) \<noteq> - 1" and "uint (word_of_int k :: 32 word) = k"
proof -
  have lt: "k < 2 ^ 32" using assms by simp
  show u: "uint (word_of_int k :: 32 word) = k"
    using assms(1) lt by (simp add: uint_word_of_int take_bit_int_eq_self)
  show "(word_of_int k :: 32 word) \<noteq> - 1"
  proof
    assume "(word_of_int k :: 32 word) = - 1"
    then have "uint (word_of_int k :: 32 word) = uint (- 1 :: 32 word)" by simp
    with u have "k = 2 ^ 32 - 1"
      by (simp add: unsigned_minus_1_eq_mask mask_eq_exp_minus_1)
    with assms(2) show False by simp
  qed
qed

lemma read_count_word_32:
  assumes "length d \<le> 0x7ffff000"
  shows "(word_of_nat (length d) :: 32 word) \<noteq> - 1"
    and "unat (word_of_nat (length d) :: 32 word) = length d"
proof -
  have k: "0 \<le> int (length d)" "int (length d) \<le> 0x7ffff000"
    using assms by simp_all
  from count_word_32(1) [OF k] show "(word_of_nat (length d) :: 32 word) \<noteq> - 1"
    by simp
  from count_word_32(2) [OF k] have "uint (word_of_nat (length d) :: 32 word) = int (length d)"
    by simp
  then show "unat (word_of_nat (length d) :: 32 word) = length d"
    by (simp add: unat_eq_nat_uint)
qed

text \<open>What \<^verbatim>\<open>ReadFromIO\<close> leaves alone, and what one turn of the loop leaves alone.\<close>

lemma ReadFromIO_frame:
  assumes "ReadFromIO env rx_buf n rx_len s = ((res, rx_buf', rx_len'), s1)"
  shows "rx_count s1 = rx_count s"
    and "read_callback s1 = read_callback s"
    and "rx_thread_exit_flag s1 = rx_thread_exit_flag s"
    and "prefix (trace s) (trace s1)"
    and "callbacks (trace s1) = callbacks (trace s)"
    and "rx_len \<noteq> None \<Longrightarrow> rx_len' \<noteq> None"
  using assms
  by (auto simp add: ReadFromIO_def Let_def emit_def callbacks_def split: if_splits)

lemma RxThreadProc_body_frame:
  assumes "RxThreadProc_body env rx_buf s = (rx_buf', s')"
  shows "prefix (trace s) (trace s')"
    and "rx_thread_exit_flag s' = rx_thread_exit_flag s"
proof -
  obtain res b l s1 where r: "ReadFromIO env rx_buf MAX_ACK_BUF_LEN (Some 0) s = ((res, b, l), s1)"
    by (metis prod.exhaust)
  note f = ReadFromIO_frame [OF r]
  have "prefix (trace s1) (trace s')" "rx_thread_exit_flag s' = rx_thread_exit_flag s1"
    using assms r
    by (auto simp add: RxThreadProc_body_def Let_def emit_def split: if_splits option.splits)
  with f(3,4) show "prefix (trace s) (trace s')" "rx_thread_exit_flag s' = rx_thread_exit_flag s"
    by (auto intro: prefix_order.trans)
qed

text \<open>The loop only ever appends to the trace.\<close>

lemma RxThreadProc_trace:
  "RxThreadProc es rx_buf s = Some s' \<Longrightarrow> prefix (trace s) (trace s')"
proof (induction es arbitrary: rx_buf s)
  case Nil
  then show ?case by (simp split: if_splits)
next
  case (Cons e es)
  show ?case
  proof (cases "rx_thread_exit_flag s")
    case True
    with Cons.prems show ?thesis by simp
  next
    case False
    obtain b s1 where body: "RxThreadProc_body (io e) rx_buf s = (b, s1)"
      by (metis prod.exhaust)
    let ?s2 = "if exit_requested e then s1\<lparr>rx_thread_exit_flag := True\<rparr> else s1"
    from Cons.prems False body have "RxThreadProc es b ?s2 = Some s'"
      by simp
    from Cons.IH [OF this] have "prefix (trace s1) (trace s')"
      by (simp split: if_splits)
    with RxThreadProc_body_frame(1) [OF body] show ?thesis
      by (rule prefix_order.trans)
  qed
qed

subsection \<open>Close\<close>

text \<open>
  C6. \<^verbatim>\<open>Close\<close> returns success in every state. On a transport that is not open it returns
  success at once and changes nothing (no member, no event of the trace). After a
  \<^verbatim>\<open>Close\<close> the transport is not open, so a second \<^verbatim>\<open>Close\<close> returns success and changes
  nothing; in particular after any \<^verbatim>\<open>Open\<close>, whatever it returned.
\<close>

theorem Close_idempotent:
  "fst (Close s) = True \<and>
   (\<not> IsOpened s \<longrightarrow> Close s = (True, s)) \<and>
   \<not> IsOpened (snd (Close s)) \<and>
   Close (snd (Close s)) = (True, snd (Close s)) \<and>
   Close (snd (Close (snd (Open env port_name baud s))))
     = (True, snd (Close (snd (Open env port_name baud s))))"
proof -
  have ret: "fst (Close t) = True" for t
    by (simp add: Close_def Let_def)
  have noop: "\<not> IsOpened t \<Longrightarrow> Close t = (True, t)" for t
    by (simp add: Close_def IsOpened_def)
  have closed: "\<not> IsOpened (snd (Close t))" for t
    by (simp add: Close_def IsOpened_def Let_def)
  have twice: "Close (snd (Close t)) = (True, snd (Close t))" for t
    using noop [OF closed [of t]] .
  show ?thesis
    using ret noop closed twice by blast
qed

theorem Close_idempotent_witness:
  "\<not> IsOpened (SerialInterfaceLinux False False) \<and>
   Close (SerialInterfaceLinux False False) = (True, SerialInterfaceLinux False False) \<and>
   Close (snd (Close (snd (Open
       \<lparr>socket_ret = 3, inet_pton = (\<lambda>ip. None), connect_ret = 0, open_ret = 4,
        tcgetattr_ret = 0, tcsetattr_ret = 0\<rparr>
       ''/dev/ttyUSB0'' 115200 (SerialInterfaceLinux False False)))))
     = (True,
        \<lparr>rx_thread = None, rx_count = 0, com_handle = - 1, com_baudrate = 115200,
         is_cmd_opened = False, rx_thread_exit_flag = True, read_callback = None,
         trace = [Ev_open ''/dev/ttyUSB0'' 4, Ev_tcgetattr 4 0, Ev_tcsetattr 4 0,
                  Ev_log_info ''Actual BaudRate reported:%d'', Ev_tcflush 4,
                  Ev_thread_start, Ev_close 4, Ev_thread_join]\<rparr>)"
  using Close_idempotent [of "SerialInterfaceLinux False False"
      "\<lparr>socket_ret = 3, inet_pton = (\<lambda>ip. None), connect_ret = 0, open_ret = 4,
        tcgetattr_ret = 0, tcsetattr_ret = 0\<rparr>" "''/dev/ttyUSB0''" 115200]
  by (simp add: IsOpened_def SerialInterfaceLinux_def Open_def find_at_0_def Open_serial_def
      Close_def close_handle_def start_worker_def emit_def Let_def)

subsection \<open>ReadFromIO on a transport that is not open\<close>

text \<open>
  C8. A \<^verbatim>\<open>ReadFromIO\<close> on a transport that is not open returns \<open>false\<close> at once: the object
  and its trace are unchanged (no \<^verbatim>\<open>pselect\<close>, so no wait, and no \<^verbatim>\<open>read\<close>), and so are the
  buffer and the out-parameter.
\<close>

theorem ReadFromIO_not_open:
  "\<not> IsOpened s \<Longrightarrow> ReadFromIO env rx_buf rx_buf_len rx_len s = ((False, rx_buf, rx_len), s)"
  by (simp add: ReadFromIO_def)

theorem ReadFromIO_not_open_witness:
  "\<not> IsOpened (SerialInterfaceLinux False False) \<and>
   ReadFromIO \<lparr>pselect_ret = 1, pselect_errno = 0, fd_isset = True, read_res = Read_bytes [1, 2]\<rparr>
       [0, 0] 2 (Some 5) (SerialInterfaceLinux False False)
     = ((False, [0, 0], Some 5), SerialInterfaceLinux False False)"
  using ReadFromIO_not_open [of "SerialInterfaceLinux False False"]
  by (simp add: IsOpened_def SerialInterfaceLinux_def)

subsection \<open>WriteToIo\<close>

text \<open>
  C5. A \<^verbatim>\<open>WriteToIo\<close> on a transport that is not open returns \<open>false\<close> and does nothing: the
  object, its trace (no \<^verbatim>\<open>write\<close>) and the out-parameter are unchanged. On an open transport,
  and with an answer \<open>w\<close> of \<^verbatim>\<open>write\<close> that the system can give, exactly one \<^verbatim>\<open>write\<close> is
  appended to the trace, the call returns \<open>false\<close> exactly when \<open>w\<close> is the error value \<open>-1\<close>
  and then leaves the out-parameter alone, and otherwise it stores \<open>w\<close> itself in the
  out-parameter, whether or not \<open>w\<close> is the whole length: nothing is retried.
\<close>

theorem WriteToIo_contract:
  "(\<not> IsOpened s \<longrightarrow> WriteToIo w tx_buf n tx_len s = ((False, tx_len), s)) \<and>
   (IsOpened s \<and> write_answer_ok n w \<longrightarrow>
      WriteToIo w tx_buf n tx_len s
        = ((w \<noteq> - 1, if w = - 1 then tx_len else map_option (\<lambda>old. word_of_int w) tx_len),
           emit (Ev_write (com_handle s) n w) s) \<and>
      (w \<noteq> - 1 \<longrightarrow> uint (word_of_int w :: 32 word) = w))"
proof -
  have closed: "\<not> IsOpened s \<Longrightarrow> WriteToIo w tx_buf n tx_len s = ((False, tx_len), s)"
    by (simp add: WriteToIo_def)
  have err: "IsOpened s \<Longrightarrow> w = - 1 \<Longrightarrow>
      WriteToIo w tx_buf n tx_len s = ((False, tx_len), emit (Ev_write (com_handle s) n w) s)"
    by (simp add: WriteToIo_def)
  have ok: "WriteToIo w tx_buf n tx_len s
        = ((True, map_option (\<lambda>old. word_of_int w) tx_len), emit (Ev_write (com_handle s) n w) s)
      \<and> uint (word_of_int w :: 32 word) = w"
    if o: "IsOpened s" and w: "0 \<le> w" "w \<le> 0x7ffff000"
  proof -
    note c = count_word_32 [OF w]
    show ?thesis
      using o c by (cases tx_len) (simp_all add: WriteToIo_def)
  qed
  show ?thesis
    using closed err ok unfolding write_answer_ok_def by auto
qed

theorem WriteToIo_contract_witness:
  "WriteToIo 2 [1, 2, 3] 3 (Some 77) (SerialInterfaceLinux False False)
     = ((False, Some 77), SerialInterfaceLinux False False) \<and>
   WriteToIo 2 [1, 2, 3] 3 (Some 77) ((SerialInterfaceLinux True False)\<lparr>com_handle := 4\<rparr>)
     = ((True, Some 2), emit (Ev_write 4 3 2) ((SerialInterfaceLinux True False)\<lparr>com_handle := 4\<rparr>)) \<and>
   WriteToIo (- 1) [1, 2, 3] 3 (Some 77) ((SerialInterfaceLinux True False)\<lparr>com_handle := 4\<rparr>)
     = ((False, Some 77),
        emit (Ev_write 4 3 (- 1)) ((SerialInterfaceLinux True False)\<lparr>com_handle := 4\<rparr>))"
  using WriteToIo_contract [where s = "SerialInterfaceLinux False False" and w = 2
        and tx_buf = "[1, 2, 3]" and n = 3 and tx_len = "Some 77"]
    WriteToIo_contract [where s = "(SerialInterfaceLinux True False)\<lparr>com_handle := 4\<rparr>" and w = 2
        and tx_buf = "[1, 2, 3]" and n = 3 and tx_len = "Some 77"]
    WriteToIo_contract [where s = "(SerialInterfaceLinux True False)\<lparr>com_handle := 4\<rparr>"
        and w = "- 1" and tx_buf = "[1, 2, 3]" and n = 3 and tx_len = "Some 77"]
  by (simp add: IsOpened_def SerialInterfaceLinux_def write_answer_ok_def)

subsection \<open>ReadFromIO on an open transport\<close>

text \<open>
  C4. On an open transport whose handle is readable when the wait returns (a positive result
  of \<^verbatim>\<open>pselect\<close>, the handle set), and with an answer of \<^verbatim>\<open>read\<close> that the system can give:
  the trace grows by the wait and exactly one \<^verbatim>\<open>read\<close>; when \<^verbatim>\<open>read\<close> delivers bytes \<open>d\<close>
  (also none) the call returns \<open>true\<close>, the buffer starts with \<open>d\<close> and the out-parameter
  holds the length of \<open>d\<close>; when \<^verbatim>\<open>read\<close> fails the call returns \<open>false\<close> with the buffer
  and the out-parameter as they were. So the call returns \<open>false\<close> exactly when \<^verbatim>\<open>read\<close> fails.
\<close>

theorem ReadFromIO_readable:
  assumes "IsOpened s" and "0 < pselect_ret env" and "fd_isset env"
    and "read_answer_ok rx_buf_len (read_res env)"
  shows "(\<forall>d. read_res env = Read_bytes d \<longrightarrow>
            ReadFromIO env rx_buf rx_buf_len rx_len s
              = ((True, d @ drop (length d) rx_buf, map_option (\<lambda>old. word_of_nat (length d)) rx_len),
                 emit (Ev_read (com_handle s) rx_buf_len (int (length d)))
                   (emit (Ev_pselect (com_handle s) (com_handle s + 1) timeout (pselect_ret env)) s)) \<and>
            unat (word_of_nat (length d) :: 32 word) = length d) \<and>
         (read_res env = Read_error \<longrightarrow>
            ReadFromIO env rx_buf rx_buf_len rx_len s
              = ((False, rx_buf, rx_len),
                 emit (Ev_read (com_handle s) rx_buf_len (- 1))
                   (emit (Ev_pselect (com_handle s) (com_handle s + 1) timeout (pselect_ret env)) s))) \<and>
         (fst (fst (ReadFromIO env rx_buf rx_buf_len rx_len s)) \<longleftrightarrow> read_res env \<noteq> Read_error)"
proof (cases "read_res env")
  case Read_error
  then show ?thesis
    using assms(1-3) by (simp add: ReadFromIO_def Let_def emit_def)
next
  case (Read_bytes d)
  with assms(4) have "length d \<le> 0x7ffff000"
    by (simp add: read_answer_ok_def)
  note c = read_count_word_32 [OF this]
  show ?thesis
    using assms(1-3) Read_bytes c
    by (cases rx_len) (simp_all add: ReadFromIO_def Let_def emit_def)
qed

theorem ReadFromIO_readable_witness:
  "ReadFromIO \<lparr>pselect_ret = 1, pselect_errno = 0, fd_isset = True, read_res = Read_bytes [1, 2, 3]\<rparr>
       [9, 9, 9, 9, 9] 5 (Some 77) ((SerialInterfaceLinux True False)\<lparr>com_handle := 4\<rparr>)
     = ((True, [1, 2, 3, 9, 9], Some 3),
        (SerialInterfaceLinux True False)
          \<lparr>com_handle := 4, trace := [Ev_pselect 4 5 (0, 100000000) 1, Ev_read 4 5 3]\<rparr>) \<and>
   ReadFromIO \<lparr>pselect_ret = 1, pselect_errno = 0, fd_isset = True, read_res = Read_error\<rparr>
       [9, 9, 9, 9, 9] 5 (Some 77) ((SerialInterfaceLinux True False)\<lparr>com_handle := 4\<rparr>)
     = ((False, [9, 9, 9, 9, 9], Some 77),
        (SerialInterfaceLinux True False)
          \<lparr>com_handle := 4, trace := [Ev_pselect 4 5 (0, 100000000) 1, Ev_read 4 5 (- 1)]\<rparr>)"
  using ReadFromIO_readable [where s = "(SerialInterfaceLinux True False)\<lparr>com_handle := 4\<rparr>"
      and env = "\<lparr>pselect_ret = 1, pselect_errno = 0, fd_isset = True, read_res = Read_bytes [1, 2, 3]\<rparr>"
      and rx_buf_len = 5 and rx_buf = "[9, 9, 9, 9, 9]" and rx_len = "Some 77"]
    ReadFromIO_readable [where s = "(SerialInterfaceLinux True False)\<lparr>com_handle := 4\<rparr>"
      and env = "\<lparr>pselect_ret = 1, pselect_errno = 0, fd_isset = True, read_res = Read_error\<rparr>"
      and rx_buf_len = 5 and rx_buf = "[9, 9, 9, 9, 9]" and rx_len = "Some 77"]
  by (simp add: IsOpened_def SerialInterfaceLinux_def read_answer_ok_def emit_def timeout_def)

text \<open>
  C3, as stated, fails where the wait returns an error that is not \<^verbatim>\<open>EINTR\<close>: the call does
  not return there, it goes on to \<^verbatim>\<open>FD_ISSET\<close>. \<^verbatim>\<open>pselect\<close> leaves the descriptor set as it
  was on an error, so the handle is still set, the \<^verbatim>\<open>read\<close> is made, and when it delivers
  bytes the call returns \<open>true\<close>. Here \<^verbatim>\<open>pselect\<close> fails with \<^verbatim>\<open>ENOMEM\<close> (12) and \<^verbatim>\<open>read\<close>
  delivers three bytes.
\<close>

theorem ReadFromIO_wait_error_counterexample:
  "IsOpened ((SerialInterfaceLinux True False)\<lparr>com_handle := 4\<rparr>) \<and>
   pselect_ret \<lparr>pselect_ret = - 1, pselect_errno = 12, fd_isset = True,
                read_res = Read_bytes [1, 2, 3]\<rparr> < 0 \<and>
   pselect_errno \<lparr>pselect_ret = - 1, pselect_errno = 12, fd_isset = True,
                  read_res = Read_bytes [1, 2, 3]\<rparr> \<noteq> EINTR \<and>
   ReadFromIO \<lparr>pselect_ret = - 1, pselect_errno = 12, fd_isset = True,
               read_res = Read_bytes [1, 2, 3]\<rparr>
       [9, 9, 9, 9, 9] 5 (Some 77) ((SerialInterfaceLinux True False)\<lparr>com_handle := 4\<rparr>)
     = ((True, [1, 2, 3, 9, 9], Some 3),
        (SerialInterfaceLinux True False)
          \<lparr>com_handle := 4, trace := [Ev_pselect 4 5 (0, 100000000) (- 1), Ev_read 4 5 3]\<rparr>)"
  by (simp add: ReadFromIO_def IsOpened_def SerialInterfaceLinux_def EINTR_def emit_def
      timeout_def)

text \<open>
  C3, amended. Every \<^verbatim>\<open>ReadFromIO\<close> on an open transport makes exactly one wait, on the
  handle alone, with the timeout 0 s and 100000000 ns. When the wait is interrupted
  (\<^verbatim>\<open>EINTR\<close>) or times out (result 0), the call returns \<open>false\<close>, no \<^verbatim>\<open>read\<close> is made, and the
  buffer and the out-parameter are as they were. When the wait returns another error, the
  call goes on: with the handle not set it returns \<open>false\<close> without a \<^verbatim>\<open>read\<close>; with the handle
  set it makes the \<^verbatim>\<open>read\<close> and returns \<open>false\<close> exactly when the \<^verbatim>\<open>read\<close> fails.
\<close>

theorem ReadFromIO_wait:
  assumes "IsOpened s"
  shows "(\<exists>rest. trace (snd (ReadFromIO env rx_buf rx_buf_len rx_len s))
              = trace s @ Ev_pselect (com_handle s) (com_handle s + 1) (0, 100000000)
                            (pselect_ret env) # rest
            \<and> \<not> list_ex is_pselect rest) \<and>
         (pselect_ret env < 0 \<and> pselect_errno env = EINTR \<or> pselect_ret env = 0 \<longrightarrow>
            ReadFromIO env rx_buf rx_buf_len rx_len s
              = ((False, rx_buf, rx_len),
                 emit (Ev_pselect (com_handle s) (com_handle s + 1) (0, 100000000)
                         (pselect_ret env)) s)) \<and>
         (pselect_ret env < 0 \<and> pselect_errno env \<noteq> EINTR \<and> \<not> fd_isset env \<longrightarrow>
            ReadFromIO env rx_buf rx_buf_len rx_len s
              = ((False, rx_buf, rx_len),
                 emit (Ev_pselect (com_handle s) (com_handle s + 1) (0, 100000000)
                         (pselect_ret env)) s)) \<and>
         (pselect_ret env < 0 \<and> pselect_errno env \<noteq> EINTR \<and> fd_isset env
            \<and> read_answer_ok rx_buf_len (read_res env) \<longrightarrow>
            (fst (fst (ReadFromIO env rx_buf rx_buf_len rx_len s))
               \<longleftrightarrow> read_res env \<noteq> Read_error) \<and>
            trace (snd (ReadFromIO env rx_buf rx_buf_len rx_len s))
              = trace s @ [Ev_pselect (com_handle s) (com_handle s + 1) (0, 100000000)
                            (pselect_ret env),
                           Ev_read (com_handle s) rx_buf_len (read_ret (read_res env))])"
proof -
  have one: "\<exists>rest. trace (snd (ReadFromIO env rx_buf rx_buf_len rx_len s))
              = trace s @ Ev_pselect (com_handle s) (com_handle s + 1) (0, 100000000)
                            (pselect_ret env) # rest
            \<and> \<not> list_ex is_pselect rest"
    using assms by (simp add: ReadFromIO_def Let_def emit_def timeout_def)
  have early: "pselect_ret env < 0 \<and> pselect_errno env = EINTR \<or> pselect_ret env = 0 \<Longrightarrow>
            ReadFromIO env rx_buf rx_buf_len rx_len s
              = ((False, rx_buf, rx_len),
                 emit (Ev_pselect (com_handle s) (com_handle s + 1) (0, 100000000)
                         (pselect_ret env)) s)"
    using assms by (auto simp add: ReadFromIO_def Let_def timeout_def)
  have clear: "pselect_ret env < 0 \<Longrightarrow> pselect_errno env \<noteq> EINTR \<Longrightarrow> \<not> fd_isset env \<Longrightarrow>
            ReadFromIO env rx_buf rx_buf_len rx_len s
              = ((False, rx_buf, rx_len),
                 emit (Ev_pselect (com_handle s) (com_handle s + 1) (0, 100000000)
                         (pselect_ret env)) s)"
    using assms by (simp add: ReadFromIO_def Let_def timeout_def)
  have through: "(fst (fst (ReadFromIO env rx_buf rx_buf_len rx_len s))
               \<longleftrightarrow> read_res env \<noteq> Read_error) \<and>
            trace (snd (ReadFromIO env rx_buf rx_buf_len rx_len s))
              = trace s @ [Ev_pselect (com_handle s) (com_handle s + 1) (0, 100000000)
                            (pselect_ret env),
                           Ev_read (com_handle s) rx_buf_len (read_ret (read_res env))]"
    if "pselect_ret env < 0" "pselect_errno env \<noteq> EINTR" "fd_isset env"
      "read_answer_ok rx_buf_len (read_res env)"
  proof (cases "read_res env")
    case Read_error
    then show ?thesis
      using assms that(1-3) by (simp add: ReadFromIO_def Let_def emit_def timeout_def)
  next
    case (Read_bytes d)
    with that(4) have "length d \<le> 0x7ffff000"
      by (simp add: read_answer_ok_def)
    note c = read_count_word_32 [OF this]
    show ?thesis
      using assms that(1-3) Read_bytes c
      by (simp add: ReadFromIO_def Let_def emit_def timeout_def)
  qed
  show ?thesis
    using one early clear through by blast
qed

theorem ReadFromIO_wait_witness:
  "ReadFromIO \<lparr>pselect_ret = - 1, pselect_errno = 4, fd_isset = True, read_res = Read_bytes [1, 2, 3]\<rparr>
       [9, 9, 9, 9, 9] 5 (Some 77) ((SerialInterfaceLinux True False)\<lparr>com_handle := 4\<rparr>)
     = ((False, [9, 9, 9, 9, 9], Some 77),
        (SerialInterfaceLinux True False)
          \<lparr>com_handle := 4, trace := [Ev_pselect 4 5 (0, 100000000) (- 1)]\<rparr>) \<and>
   ReadFromIO \<lparr>pselect_ret = 0, pselect_errno = 0, fd_isset = False, read_res = Read_bytes [1, 2, 3]\<rparr>
       [9, 9, 9, 9, 9] 5 (Some 77) ((SerialInterfaceLinux True False)\<lparr>com_handle := 4\<rparr>)
     = ((False, [9, 9, 9, 9, 9], Some 77),
        (SerialInterfaceLinux True False)
          \<lparr>com_handle := 4, trace := [Ev_pselect 4 5 (0, 100000000) 0]\<rparr>) \<and>
   ReadFromIO \<lparr>pselect_ret = - 1, pselect_errno = 9, fd_isset = False, read_res = Read_error\<rparr>
       [9, 9, 9, 9, 9] 5 (Some 77) ((SerialInterfaceLinux True False)\<lparr>com_handle := 4\<rparr>)
     = ((False, [9, 9, 9, 9, 9], Some 77),
        (SerialInterfaceLinux True False)
          \<lparr>com_handle := 4, trace := [Ev_pselect 4 5 (0, 100000000) (- 1)]\<rparr>) \<and>
   \<not> fst (fst (ReadFromIO
       \<lparr>pselect_ret = - 1, pselect_errno = 9, fd_isset = True, read_res = Read_error\<rparr>
       [9, 9, 9, 9, 9] 5 (Some 77) ((SerialInterfaceLinux True False)\<lparr>com_handle := 4\<rparr>))) \<and>
   trace (snd (ReadFromIO
       \<lparr>pselect_ret = - 1, pselect_errno = 9, fd_isset = True, read_res = Read_error\<rparr>
       [9, 9, 9, 9, 9] 5 (Some 77) ((SerialInterfaceLinux True False)\<lparr>com_handle := 4\<rparr>)))
     = [Ev_pselect 4 5 (0, 100000000) (- 1), Ev_read 4 5 (- 1)]"
  using ReadFromIO_wait [where s = "(SerialInterfaceLinux True False)\<lparr>com_handle := 4\<rparr>"
      and env = "\<lparr>pselect_ret = - 1, pselect_errno = 4, fd_isset = True,
                  read_res = Read_bytes [1, 2, 3]\<rparr>"
      and rx_buf_len = 5 and rx_buf = "[9, 9, 9, 9, 9]" and rx_len = "Some 77"]
    ReadFromIO_wait [where s = "(SerialInterfaceLinux True False)\<lparr>com_handle := 4\<rparr>"
      and env = "\<lparr>pselect_ret = 0, pselect_errno = 0, fd_isset = False,
                  read_res = Read_bytes [1, 2, 3]\<rparr>"
      and rx_buf_len = 5 and rx_buf = "[9, 9, 9, 9, 9]" and rx_len = "Some 77"]
    ReadFromIO_wait [where s = "(SerialInterfaceLinux True False)\<lparr>com_handle := 4\<rparr>"
      and env = "\<lparr>pselect_ret = - 1, pselect_errno = 9, fd_isset = False, read_res = Read_error\<rparr>"
      and rx_buf_len = 5 and rx_buf = "[9, 9, 9, 9, 9]" and rx_len = "Some 77"]
    ReadFromIO_wait [where s = "(SerialInterfaceLinux True False)\<lparr>com_handle := 4\<rparr>"
      and env = "\<lparr>pselect_ret = - 1, pselect_errno = 9, fd_isset = True, read_res = Read_error\<rparr>"
      and rx_buf_len = 5 and rx_buf = "[9, 9, 9, 9, 9]" and rx_len = "Some 77"]
  by (simp add: IsOpened_def SerialInterfaceLinux_def read_answer_ok_def emit_def EINTR_def)

subsection \<open>One turn of the receiver loop\<close>

text \<open>
  C7. Take one turn of the loop and what its \<^verbatim>\<open>ReadFromIO\<close> gives: the result \<open>res\<close>, the
  buffer, the count and the object \<open>s1\<close>. The count is always there (the loop passes the
  address of \<^verbatim>\<open>readed\<close>). When \<open>res\<close> holds and the count \<open>n\<close> is not zero, the turn adds
  exactly \<open>n\<close> to the byte counter and then, when a callback is registered, appends its
  invocation with the buffer and \<open>n\<close> as the last event of the turn; with no callback the
  bytes are counted and nothing else happens. When the read failed or the count is zero, the
  turn changes neither the counter nor the callback invocations of the trace. Whatever the
  loop does after this turn comes after it in the trace: the trace at the end of the turn
  is a prefix of the trace when the loop ends.
\<close>

theorem RxThreadProc_iteration:
  assumes rd: "ReadFromIO (io e) rx_buf MAX_ACK_BUF_LEN (Some 0) s = ((res, rx_buf', rx_len), s1)"
  shows "(\<exists>n. rx_len = Some n) \<and>
         (\<forall>n. res \<and> rx_len = Some n \<and> n \<noteq> 0 \<longrightarrow>
            RxThreadProc_body (io e) rx_buf s
              = (rx_buf',
                 case read_callback s of
                   None \<Rightarrow> s1\<lparr>rx_count := rx_count s + uint n\<rparr>
                 | Some cb \<Rightarrow>
                     emit (Ev_callback cb rx_buf' (unat n)) (s1\<lparr>rx_count := rx_count s + uint n\<rparr>))) \<and>
         (\<not> res \<or> rx_len = Some 0 \<longrightarrow>
            RxThreadProc_body (io e) rx_buf s = (rx_buf', s1) \<and>
            rx_count s1 = rx_count s \<and> callbacks (trace s1) = callbacks (trace s)) \<and>
         (\<forall>s'. \<not> rx_thread_exit_flag s \<and> RxThreadProc (e # es) rx_buf s = Some s' \<longrightarrow>
            prefix (trace (snd (RxThreadProc_body (io e) rx_buf s))) (trace s'))"
proof -
  note f = ReadFromIO_frame [OF rd]
  from f(6) have some: "\<exists>n. rx_len = Some n"
    by auto
  have hit: "RxThreadProc_body (io e) rx_buf s
              = (rx_buf',
                 case read_callback s of
                   None \<Rightarrow> s1\<lparr>rx_count := rx_count s + uint n\<rparr>
                 | Some cb \<Rightarrow>
                     emit (Ev_callback cb rx_buf' (unat n)) (s1\<lparr>rx_count := rx_count s + uint n\<rparr>))"
    if "res" "rx_len = Some n" "n \<noteq> 0" for n
    using rd that f(1,2) by (simp add: RxThreadProc_body_def Let_def split: option.splits)
  have miss: "RxThreadProc_body (io e) rx_buf s = (rx_buf', s1)" if "\<not> res \<or> rx_len = Some 0"
    using rd that by (auto simp add: RxThreadProc_body_def Let_def)
  have order: "prefix (trace (snd (RxThreadProc_body (io e) rx_buf s))) (trace s')"
    if "\<not> rx_thread_exit_flag s" "RxThreadProc (e # es) rx_buf s = Some s'" for s'
  proof -
    obtain b s2 where body: "RxThreadProc_body (io e) rx_buf s = (b, s2)"
      by (metis prod.exhaust)
    from that body
    have "RxThreadProc es b (if exit_requested e then s2\<lparr>rx_thread_exit_flag := True\<rparr> else s2)
            = Some s'"
      by simp
    from RxThreadProc_trace [OF this] body show ?thesis
      by (simp split: if_splits)
  qed
  show ?thesis
    using some hit miss order f(1,5) by blast
qed

theorem RxThreadProc_iteration_witness:
  "RxThreadProc_body
       \<lparr>pselect_ret = 1, pselect_errno = 0, fd_isset = True, read_res = Read_bytes [1, 2, 3]\<rparr>
       [9, 9, 9, 9, 9]
       ((SerialInterfaceLinux True False)\<lparr>com_handle := 4, read_callback := Some (Callback 7)\<rparr>)
     = ([1, 2, 3, 9, 9],
        (SerialInterfaceLinux True False)
          \<lparr>rx_count := 3, com_handle := 4, read_callback := Some (Callback 7),
           trace := [Ev_pselect 4 5 (0, 100000000) 1, Ev_read 4 4096 3,
                     Ev_callback (Callback 7) [1, 2, 3, 9, 9] 3]\<rparr>) \<and>
   RxThreadProc_body
       \<lparr>pselect_ret = 0, pselect_errno = 0, fd_isset = False, read_res = Read_error\<rparr>
       [9, 9, 9, 9, 9]
       ((SerialInterfaceLinux True False)\<lparr>com_handle := 4, read_callback := Some (Callback 7)\<rparr>)
     = ([9, 9, 9, 9, 9],
        (SerialInterfaceLinux True False)
          \<lparr>com_handle := 4, read_callback := Some (Callback 7),
           trace := [Ev_pselect 4 5 (0, 100000000) 0]\<rparr>) \<and>
   RxThreadProc
       [\<lparr>io = \<lparr>pselect_ret = 1, pselect_errno = 0, fd_isset = True,
                 read_res = Read_bytes [1, 2, 3]\<rparr>, exit_requested = False\<rparr>,
        \<lparr>io = \<lparr>pselect_ret = 0, pselect_errno = 0, fd_isset = False,
                 read_res = Read_error\<rparr>, exit_requested = True\<rparr>]
       [9, 9, 9, 9, 9]
       ((SerialInterfaceLinux True False)\<lparr>com_handle := 4, read_callback := Some (Callback 7)\<rparr>)
     = Some ((SerialInterfaceLinux True True)
          \<lparr>rx_count := 3, com_handle := 4, read_callback := Some (Callback 7),
           trace := [Ev_pselect 4 5 (0, 100000000) 1, Ev_read 4 4096 3,
                     Ev_callback (Callback 7) [1, 2, 3, 9, 9] 3,
                     Ev_pselect 4 5 (0, 100000000) 0]\<rparr>) \<and>
   prefix [Ev_pselect 4 5 (0, 100000000) 1, Ev_read 4 4096 3,
           Ev_callback (Callback 7) [1, 2, 3, 9, 9] 3]
          [Ev_pselect 4 5 (0, 100000000) 1, Ev_read 4 4096 3,
           Ev_callback (Callback 7) [1, 2, 3, 9, 9] 3, Ev_pselect 4 5 (0, 100000000) 0]"
proof -
  let ?s = "(SerialInterfaceLinux True False)\<lparr>com_handle := 4, read_callback := Some (Callback 7)\<rparr>"
  let ?hit = "\<lparr>io = \<lparr>pselect_ret = 1, pselect_errno = 0, fd_isset = True,
                        read_res = Read_bytes [1, 2, 3]\<rparr>, exit_requested = False\<rparr>"
  let ?idle = "\<lparr>io = \<lparr>pselect_ret = 0, pselect_errno = 0, fd_isset = False,
                         read_res = Read_error\<rparr>, exit_requested = True\<rparr>"
  have hit: "ReadFromIO (io ?hit) [9, 9, 9, 9, 9] MAX_ACK_BUF_LEN (Some 0) ?s
      = ((True, [1, 2, 3, 9, 9], Some 3),
         ?s\<lparr>trace := [Ev_pselect 4 5 (0, 100000000) 1, Ev_read 4 4096 3]\<rparr>)"
    by (simp add: ReadFromIO_def IsOpened_def SerialInterfaceLinux_def MAX_ACK_BUF_LEN_def
        emit_def timeout_def)
  have idle: "ReadFromIO (io ?idle) [9, 9, 9, 9, 9] MAX_ACK_BUF_LEN (Some 0) ?s
      = ((False, [9, 9, 9, 9, 9], Some 0), ?s\<lparr>trace := [Ev_pselect 4 5 (0, 100000000) 0]\<rparr>)"
    by (simp add: ReadFromIO_def IsOpened_def SerialInterfaceLinux_def MAX_ACK_BUF_LEN_def
        emit_def timeout_def)
  have run: "RxThreadProc [?hit, ?idle] [9, 9, 9, 9, 9] ?s
      = Some ((SerialInterfaceLinux True True)
          \<lparr>rx_count := 3, com_handle := 4, read_callback := Some (Callback 7),
           trace := [Ev_pselect 4 5 (0, 100000000) 1, Ev_read 4 4096 3,
                     Ev_callback (Callback 7) [1, 2, 3, 9, 9] 3,
                     Ev_pselect 4 5 (0, 100000000) 0]\<rparr>)"
    by (simp add: RxThreadProc_body_def ReadFromIO_def IsOpened_def SerialInterfaceLinux_def
        MAX_ACK_BUF_LEN_def emit_def timeout_def)
  show ?thesis
    using RxThreadProc_iteration [where es = "[?idle]", OF hit] RxThreadProc_iteration [OF idle] run
    by (simp add: SerialInterfaceLinux_def emit_def)
qed

text \<open>
  C10. On an open transport whose handle is readable and whose \<^verbatim>\<open>read\<close> delivers no byte
  (end of stream), \<^verbatim>\<open>ReadFromIO\<close> returns \<open>true\<close> and sets the out-parameter to 0. The turn
  of the loop that gets this answer leaves the byte counter and the callback invocations of
  the trace as they were, and in both, and in the buffer, it ends as a turn whose wait timed
  out does: the callback cannot tell the two apart.
\<close>

theorem end_of_stream_is_idle:
  assumes "IsOpened s" and "0 < pselect_ret env" and "fd_isset env"
    and "read_res env = Read_bytes []"
  shows "ReadFromIO env rx_buf rx_buf_len rx_len s
           = ((True, rx_buf, map_option (\<lambda>old. 0) rx_len),
              emit (Ev_read (com_handle s) rx_buf_len 0)
                (emit (Ev_pselect (com_handle s) (com_handle s + 1) timeout (pselect_ret env)) s)) \<and>
         RxThreadProc_body env rx_buf s
           = (rx_buf,
              emit (Ev_read (com_handle s) MAX_ACK_BUF_LEN 0)
                (emit (Ev_pselect (com_handle s) (com_handle s + 1) timeout (pselect_ret env)) s)) \<and>
         rx_count (snd (RxThreadProc_body env rx_buf s)) = rx_count s \<and>
         callbacks (trace (snd (RxThreadProc_body env rx_buf s))) = callbacks (trace s) \<and>
         (\<forall>idle. pselect_ret idle = 0 \<longrightarrow>
            fst (RxThreadProc_body idle rx_buf s) = fst (RxThreadProc_body env rx_buf s) \<and>
            rx_count (snd (RxThreadProc_body idle rx_buf s))
              = rx_count (snd (RxThreadProc_body env rx_buf s)) \<and>
            callbacks (trace (snd (RxThreadProc_body idle rx_buf s)))
              = callbacks (trace (snd (RxThreadProc_body env rx_buf s))))"
proof -
  have rd: "ReadFromIO env b n l s
           = ((True, b, map_option (\<lambda>old. 0) l),
              emit (Ev_read (com_handle s) n 0)
                (emit (Ev_pselect (com_handle s) (com_handle s + 1) timeout (pselect_ret env)) s))"
    for b n l
    using assms by (cases l) (simp_all add: ReadFromIO_def Let_def emit_def)
  have body: "RxThreadProc_body env rx_buf s
           = (rx_buf,
              emit (Ev_read (com_handle s) MAX_ACK_BUF_LEN 0)
                (emit (Ev_pselect (com_handle s) (com_handle s + 1) timeout (pselect_ret env)) s))"
    by (simp add: RxThreadProc_body_def rd)
  have idle: "RxThreadProc_body idle rx_buf s
           = (rx_buf, emit (Ev_pselect (com_handle s) (com_handle s + 1) timeout 0) s)"
    if "pselect_ret idle = 0" for idle
    using assms(1) that by (simp add: RxThreadProc_body_def ReadFromIO_def Let_def)
  show ?thesis
    using rd body idle by (simp add: emit_def callbacks_def)
qed

theorem end_of_stream_is_idle_witness:
  "ReadFromIO \<lparr>pselect_ret = 1, pselect_errno = 0, fd_isset = True, read_res = Read_bytes []\<rparr>
       [9, 9, 9, 9, 9] 5 (Some 77)
       ((SerialInterfaceLinux True False)\<lparr>com_handle := 4, read_callback := Some (Callback 7)\<rparr>)
     = ((True, [9, 9, 9, 9, 9], Some 0),
        (SerialInterfaceLinux True False)
          \<lparr>com_handle := 4, read_callback := Some (Callback 7),
           trace := [Ev_pselect 4 5 (0, 100000000) 1, Ev_read 4 5 0]\<rparr>) \<and>
   RxThreadProc_body
       \<lparr>pselect_ret = 1, pselect_errno = 0, fd_isset = True, read_res = Read_bytes []\<rparr>
       [9, 9, 9, 9, 9]
       ((SerialInterfaceLinux True False)\<lparr>com_handle := 4, read_callback := Some (Callback 7)\<rparr>)
     = ([9, 9, 9, 9, 9],
        (SerialInterfaceLinux True False)
          \<lparr>com_handle := 4, read_callback := Some (Callback 7),
           trace := [Ev_pselect 4 5 (0, 100000000) 1, Ev_read 4 4096 0]\<rparr>)"
  using end_of_stream_is_idle [where s = "(SerialInterfaceLinux True False)
          \<lparr>com_handle := 4, read_callback := Some (Callback 7)\<rparr>"
      and env = "\<lparr>pselect_ret = 1, pselect_errno = 0, fd_isset = True, read_res = Read_bytes []\<rparr>"
      and rx_buf = "[9, 9, 9, 9, 9]" and rx_buf_len = 5 and rx_len = "Some 77"]
  by (simp add: IsOpened_def SerialInterfaceLinux_def emit_def timeout_def MAX_ACK_BUF_LEN_def)

subsection \<open>Open\<close>




text \<open>
  The second half of the test, \<^verbatim>\<open>pos == ip_port.length()\<close>, never holds: a position that
  \<^verbatim>\<open>find\<close> returns is below the length. A descriptor that ends with the separator passes
  the test, the socket is created, and \<^verbatim>\<open>std::stoi\<close> throws on the empty port.
\<close>

lemma find_char_less: "find_char c xs = Some pos \<Longrightarrow> pos < length xs"
  by (induction xs arbitrary: pos) (auto split: if_splits)

lemma find_char_never_length: "find_char c xs \<noteq> Some (length xs)"
  using find_char_less [of c xs "length xs"] by auto

lemma Open_trailing_separator_throws:
  "Open \<lparr>socket_ret = 3, inet_pton = (\<lambda>ip. if ip = ''127.0.0.1'' then Some 0x0100007F else None),
         connect_ret = 0, open_ret = - 1, tcgetattr_ret = - 1, tcsetattr_ret = - 1\<rparr>
       ''tcp://127.0.0.1:'' 0 (SerialInterfaceLinux False False)
     = (Threw Invalid_argument,
        \<lparr>rx_thread = None, rx_count = 0, com_handle = 3, com_baudrate = 0,
         is_cmd_opened = False, rx_thread_exit_flag = False, read_callback = None,
         trace = [Ev_socket 3, Ev_log_info ''Open %s:%s'']\<rparr>)"
  by (simp add: Open_def find_at_0_def Open_network_def stoi_def isspace_def isdigit_def
      SerialInterfaceLinux_def emit_def)

text \<open>
  C2. The claim is that a network \<^verbatim>\<open>Open\<close> whose connect fails returns failure with the
  socket released. The code returns \<open>false\<close> and keeps the socket: with the socket 3 and a
  refused connect, no \<^verbatim>\<open>close\<close> is in the trace, the handle 3 is still allocated and still
  stored in \<^verbatim>\<open>com_handle_\<close>, and a \<^verbatim>\<open>Close\<close> that follows does nothing, since the transport
  is not marked open. The serial path does close its handle when a later step fails.
\<close>

theorem Open_connect_failure_keeps_socket:
  "Open \<lparr>socket_ret = 3, inet_pton = (\<lambda>ip. if ip = ''127.0.0.1'' then Some 0x0100007F else None),
         connect_ret = - 1, open_ret = - 1, tcgetattr_ret = - 1, tcsetattr_ret = - 1\<rparr>
       ''tcp://127.0.0.1:9000'' 0 (SerialInterfaceLinux False False)
     = (Returned False,
        \<lparr>rx_thread = None, rx_count = 0, com_handle = 3, com_baudrate = 0,
         is_cmd_opened = False, rx_thread_exit_flag = False, read_callback = None,
         trace = [Ev_socket 3, Ev_log_info ''Open %s:%s'', Ev_connect 3 0x0100007F 9000 (- 1),
                  Ev_log_error ''Open connect error,%s'']\<rparr>) \<and>
   live_handles [Ev_socket 3, Ev_log_info ''Open %s:%s'', Ev_connect 3 0x0100007F 9000 (- 1),
                 Ev_log_error ''Open connect error,%s''] = {3} \<and>
   Close \<lparr>rx_thread = None, rx_count = 0, com_handle = 3, com_baudrate = 0,
         is_cmd_opened = False, rx_thread_exit_flag = False, read_callback = None,
         trace = [Ev_socket 3, Ev_log_info ''Open %s:%s'', Ev_connect 3 0x0100007F 9000 (- 1),
                  Ev_log_error ''Open connect error,%s'']\<rparr>
     = (True,
        \<lparr>rx_thread = None, rx_count = 0, com_handle = 3, com_baudrate = 0,
         is_cmd_opened = False, rx_thread_exit_flag = False, read_callback = None,
         trace = [Ev_socket 3, Ev_log_info ''Open %s:%s'', Ev_connect 3 0x0100007F 9000 (- 1),
                  Ev_log_error ''Open connect error,%s'']\<rparr>)"
  by (simp add: Open_def find_at_0_def Open_network_def stoi_def isspace_def isdigit_def
      SerialInterfaceLinux_def emit_def live_handles_def Close_def)

end
